theory Spec2Isabelle
  imports Main "HOL-Library.Word" "HOL-Library.Sublist"
begin

section \<open>JavaScript values\<close>

text \<open>
  A JavaScript string is a sequence of UTF-16 code units; \<open>substring\<close> and \<open>length\<close>
  count code units. \<open>js\<close> embeds an ASCII literal of the source.
\<close>

type_synonym jsstring = "16 word list"

definition js :: "string \<Rightarrow> jsstring" where
  "js s = map of_char s"

text \<open>
  The values the component handles: what \<open>JSON.parse\<close> and \<open>response.json()\<close> return,
  plus \<open>undefined\<close> (the value of a missing property). An object is the list of its
  own properties in \<open>Object.entries\<close> order, with distinct keys. Numbers are only carried
  around and tested (\<open>!x\<close>, \<open>x > 0\<close>), never computed with, so integers stand for them.
\<close>

datatype jsval =
    JUndefined
  | JNull
  | JBool bool
  | JNum int
  | JStr jsstring
  | JArr "jsval list"
  | JObj "(jsstring \<times> jsval) list"

text \<open>
  Exceptions. \<open>Error v\<close> is \<open>new Error(v)\<close>, thrown by the component itself (its message
  is \<open>v\<close> when \<open>v\<close> is a string); the others are raised by the platform, with a message
  text that depends on the engine.
\<close>

datatype exn = Error jsval | TypeError | SyntaxError | QuotaExceededError

text \<open>Truthiness: what \<open>if (v)\<close>, \<open>!v\<close>, \<open>v || w\<close> and \<open>v && w\<close> test.\<close>

fun truthy :: "jsval \<Rightarrow> bool" where
  "truthy JUndefined = False"
| "truthy JNull = False"
| "truthy (JBool b) = b"
| "truthy (JNum n) = (n \<noteq> 0)"
| "truthy (JStr s) = (s \<noteq> [])"
| "truthy (JArr xs) = True"
| "truthy (JObj kvs) = True"

definition orElse :: "jsval \<Rightarrow> jsval \<Rightarrow> jsval" where
  \<comment> \<open>\<open>a || b\<close>\<close>
  "orElse a b = (if truthy a then a else b)"

fun nullish :: "jsval \<Rightarrow> bool" where
  "nullish JUndefined = True"
| "nullish JNull = True"
| "nullish v = False"

text \<open>
  \<open>field v k\<close> is the property read \<open>v.k\<close> on a value that is neither \<open>null\<close> nor
  \<open>undefined\<close>, for the property names the component reads (\<open>error\<close>, \<open>message\<close>,
  \<open>jokes\<close>, \<open>joke\<close>, \<open>setup\<close>, \<open>delivery\<close>, \<open>id\<close>, \<open>category\<close>, \<open>type\<close>, \<open>flags\<close>,
  \<open>summary\<close>, \<open>length\<close>): an own property of an object, \<open>length\<close> of an array or a
  string, \<open>undefined\<close> otherwise. \<open>getProp\<close> is the read on any value: on \<open>null\<close> and
  \<open>undefined\<close> it throws a TypeError.
\<close>

fun field :: "jsval \<Rightarrow> jsstring \<Rightarrow> jsval" where
  "field (JObj kvs) k = (case map_of kvs k of Some v \<Rightarrow> v | None \<Rightarrow> JUndefined)"
| "field (JArr xs) k = (if k = js ''length'' then JNum (int (length xs)) else JUndefined)"
| "field (JStr s) k = (if k = js ''length'' then JNum (int (length s)) else JUndefined)"
| "field v k = JUndefined"

definition getProp :: "jsval \<Rightarrow> jsstring \<Rightarrow> exn + jsval" where
  "getProp v k = (if nullish v then Inl TypeError else Inr (field v k))"

text \<open>Decimal digits of a non-negative integer: \<open>String(n)\<close>, \<open>n.toString()\<close>, \<open>`${n}`\<close>.\<close>

fun decimal :: "nat \<Rightarrow> jsstring" where
  "decimal n =
     (if n < 10 then [of_nat (48 + n)]
      else decimal (n div 10) @ [of_nat (48 + n mod 10)])"

declare decimal.simps [simp del]

text \<open>\<open>v.substring(0, n)\<close>: defined on strings; on any other value the call throws.\<close>

definition substring0 :: "jsval \<Rightarrow> nat \<Rightarrow> exn + jsstring" where
  "substring0 v n = (case v of JStr s \<Rightarrow> Inr (take n s) | _ \<Rightarrow> Inl TypeError)"

text \<open>\<open>Array.prototype.map\<close> with a callback that may throw: the first exception ends it.\<close>

fun mapE :: "('a \<Rightarrow> exn + 'b) \<Rightarrow> 'a list \<Rightarrow> exn + 'b list" where
  "mapE f [] = Inr []"
| "mapE f (x # xs) =
     (case f x of
        Inl e \<Rightarrow> Inl e
      | Inr y \<Rightarrow> (case mapE f xs of Inl e \<Rightarrow> Inl e | Inr ys \<Rightarrow> Inr (y # ys)))"

text \<open>\<open>Object.entries(v)\<close> for a value that is neither \<open>null\<close> nor \<open>undefined\<close>.\<close>

fun entries :: "jsval \<Rightarrow> (jsstring \<times> jsval) list" where
  "entries (JObj kvs) = kvs"
| "entries (JArr xs) = zip (map decimal [0..<length xs]) xs"
| "entries (JStr s) = zip (map decimal [0..<length s]) (map (\<lambda>c. JStr [c]) s)"
| "entries v = []"

text \<open>\<open>xs.join(sep)\<close> on an array of strings.\<close>

fun joinWith :: "jsstring \<Rightarrow> jsstring list \<Rightarrow> jsstring" where
  "joinWith sep [] = []"
| "joinWith sep [x] = x"
| "joinWith sep (x # y # ys) = x @ sep @ joinWith sep (y # ys)"

definition isArray :: "jsval \<Rightarrow> bool" where
  "isArray v = (case v of JArr xs \<Rightarrow> True | _ \<Rightarrow> False)"


section \<open>The platform: network, clock, JSON, storage\<close>

text \<open>What the component reads of a \<open>fetch\<close> response, and how a \<open>fetch\<close> ends.\<close>

record response =
  ok :: bool
  status :: nat
  json :: "exn + jsval"

datatype fetch_result = Rejected exn | Resolved response

text \<open>
  The platform, as one call of the component sees it: the outcome of \<open>fetch\<close> for a URL,
  \<open>JSON.parse\<close> (\<open>None\<close> when it throws) and \<open>JSON.stringify\<close>, which stores the browser's
  quota accepts, the comparison \<open>v > 0\<close> for a string or an array \<open>v\<close> (which converts
  \<open>v\<close> to a number first), the clock: \<open>clock 0\<close> is the first reading of the current
  time during the call and \<open>clock 1\<close> the second, in epoch milliseconds, and what
  \<open>Date.parse\<close> makes of a string where engines are free (\<open>None\<close> is \<open>NaN\<close>).
\<close>

record env =
  fetch :: "jsstring \<Rightarrow> fetch_result"
  parse :: "jsstring \<Rightarrow> jsval option"
  stringify :: "jsval \<Rightarrow> jsstring"
  fits :: "(jsstring \<rightharpoonup> jsstring) \<Rightarrow> bool"
  coerceGt0 :: "jsval \<Rightarrow> bool"
  clock :: "nat \<Rightarrow> nat"
  parseDate :: "jsstring \<Rightarrow> int option"

text \<open>\<open>localStorage\<close>: a map from string keys to string values.\<close>

type_synonym storage = "jsstring \<rightharpoonup> jsstring"

definition getItem :: "storage \<Rightarrow> jsstring \<Rightarrow> jsstring option" where
  "getItem s k = s k"

definition setItem :: "env \<Rightarrow> storage \<Rightarrow> jsstring \<Rightarrow> jsstring \<Rightarrow> exn + storage" where
  "setItem e s k v = (if fits e (s(k \<mapsto> v)) then Inr (s(k \<mapsto> v)) else Inl QuotaExceededError)"

definition removeItem :: "storage \<Rightarrow> jsstring \<Rightarrow> storage" where
  "removeItem s k = s(k := None)"


section \<open>utils/localStorage.js\<close>

definition loadJokesFromStorage :: "env \<Rightarrow> storage \<Rightarrow> jsstring \<Rightarrow> jsval" where
  "loadJokesFromStorage e s key =
     (case getItem s key of
        None \<Rightarrow> JNull
      | Some item \<Rightarrow>
          if item \<noteq> [] then (case parse e item of Some v \<Rightarrow> v | None \<Rightarrow> JNull)
          else JNull)"

definition saveJokesToStorage :: "env \<Rightarrow> jsstring \<Rightarrow> jsval \<Rightarrow> storage \<Rightarrow> storage" where
  "saveJokesToStorage e key data s =
     (case setItem e s key (stringify e data) of Inr s' \<Rightarrow> s' | Inl err \<Rightarrow> s)"

definition clearJokesFromStorage :: "jsstring \<Rightarrow> storage \<Rightarrow> storage" where
  "clearJokesFromStorage key s = removeItem s key"


section \<open>components/JokeList.jsx: state and keys\<close>

text \<open>
  \<open>lastUpdated\<close> holds the text \<open>new Date(x).toLocaleString()\<close>. For a date without a
  time value that text is \<open>Invalid Date\<close>; otherwise it renders the time value in the
  user's locale, and the model keeps the time value (epoch milliseconds).
\<close>

datatype localeString = InvalidDate | LocaleString int

definition isDigit :: "16 word \<Rightarrow> bool" where
  "isDigit c = (48 \<le> c \<and> c \<le> 57)"

text \<open>
  The time value of \<open>new Date(s)\<close> for a string \<open>s\<close>, which is \<open>Date.parse(s)\<close>. A string
  of seven or more decimal digits that does not start with \<open>0\<close>, as \<open>Date.now().toString()\<close>
  gives, is no date in the date-time string format (a year has four digits, or six
  after a sign), and read as a year it lies past 275760, the last year of a \<open>Date\<close>: it
  has no time value. Every other string is left to the engine.
\<close>

definition dateParse :: "env \<Rightarrow> jsstring \<Rightarrow> int option" where
  "dateParse e s =
     (if 7 \<le> length s \<and> list_all isDigit s \<and> hd s \<noteq> 48 then None else parseDate e s)"

definition localeOfString :: "env \<Rightarrow> jsstring \<Rightarrow> localeString" where
  \<comment> \<open>\<open>new Date(s).toLocaleString()\<close> for a string \<open>s\<close>\<close>
  "localeOfString e s = (case dateParse e s of None \<Rightarrow> InvalidDate | Some t \<Rightarrow> LocaleString t)"

definition localeOfNumber :: "nat \<Rightarrow> localeString" where
  \<comment> \<open>\<open>new Date(n).toLocaleString()\<close> for a reading \<open>n\<close> of the clock\<close>
  "localeOfNumber n = LocaleString (int n)"

text \<open>
  The six \<open>useState\<close> cells of the component, the browser's \<open>localStorage\<close>, and the log
  of the URLs passed to \<open>fetch\<close>. \<open>error\<close> holds \<open>error.message\<close> of the exception that
  was caught (\<open>None\<close> is \<open>null\<close>). A handler is modelled from its call to the state after
  its last \<open>await\<close>; the states shown in between (\<open>loading = true\<close>) are not part of it.
\<close>

record world =
  jokes :: jsval
  loading :: bool
  error :: "exn option"
  category :: jsstring
  fromCache :: bool
  lastUpdated :: "localeString option"
  localStorage :: storage
  requests :: "jsstring list"

definition CATEGORIES :: "jsstring list" where
  "CATEGORIES =
     [js ''Programming'', js ''Miscellaneous'', js ''Dark'', js ''Pun'', js ''Spooky'',
      js ''Christmas'']"

definition storageKey :: "jsstring \<Rightarrow> jsstring" where
  "storageKey selectedCategory = js ''jokes:'' @ selectedCategory"

definition timestampKey :: "jsstring \<Rightarrow> jsstring" where
  "timestampKey selectedCategory = storageKey selectedCategory @ js '':timestamp''"

definition apiUrl :: "jsstring \<Rightarrow> jsstring" where
  "apiUrl selectedCategory =
     js ''https://v2.jokeapi.dev/joke/'' @ selectedCategory @ js ''?type=single,twopart&amount=50''"


section \<open>limitAttributes\<close>

text \<open>
  The reduced record written to storage. In \<open>JokeList.jsx\<close> the text chosen by \<open>type\<close>
  is truncated without a test, so a text that is not a string throws.
\<close>

definition limitAttributes :: "jsval \<Rightarrow> exn + jsval" where
  "limitAttributes joke =
     (if nullish joke then Inl TypeError
      else
        case (if field joke (js ''type'') = JStr (js ''twopart'')
              then substring0 (field joke (js ''setup'')) 50
              else substring0 (field joke (js ''joke'')) 50) of
          Inl e \<Rightarrow> Inl e
        | Inr s \<Rightarrow>
            Inr (JObj [(js ''id'', field joke (js ''id'')),
                       (js ''summary'', JStr (s @ js ''...'')),
                       (js ''category'', field joke (js ''category'')),
                       (js ''type'', field joke (js ''type''))]))"

text \<open>
  The second copy of the component (the one with \<open>STORAGE_PREFIX\<close> and
  \<open>JOKES_PER_FETCH\<close>) tests the text first and gives the empty summary when it is falsy.
\<close>

definition limitAttributes_v2 :: "jsval \<Rightarrow> exn + jsval" where
  "limitAttributes_v2 joke =
     (if nullish joke then Inl TypeError
      else
        let summaryText = (if field joke (js ''type'') = JStr (js ''twopart'')
                           then field joke (js ''setup'') else field joke (js ''joke''))
        in case (if truthy summaryText
                 then (case substring0 summaryText 50 of
                         Inl e \<Rightarrow> Inl e
                       | Inr s \<Rightarrow> Inr (JStr (s @ js ''...'')))
                 else Inr (JStr [])) of
             Inl e \<Rightarrow> Inl e
           | Inr summary \<Rightarrow>
               Inr (JObj [(js ''id'', field joke (js ''id'')),
                          (js ''summary'', summary),
                          (js ''category'', field joke (js ''category'')),
                          (js ''type'', field joke (js ''type''))]))"


section \<open>fetchJokes\<close>

text \<open>Normalisation of the response body into an array of raw jokes.\<close>

definition jokesArray :: "jsval \<Rightarrow> exn + jsval list" where
  "jokesArray data =
     (if nullish data then Inl TypeError
      else
        case field data (js ''jokes'') of
          JArr xs \<Rightarrow> Inr xs
        | _ \<Rightarrow>
            if truthy (field data (js ''joke'')) \<or> truthy (field data (js ''setup''))
            then Inr [data]
            else Inr [])"

text \<open>The callback of \<open>jokesArray.map\<close> that builds the full record.\<close>

definition processJoke :: "jsval \<Rightarrow> exn + jsval" where
  "processJoke joke =
     (if nullish joke then Inl TypeError
      else
        Inr (JObj [(js ''id'', field joke (js ''id'')),
                   (js ''joke'', orElse (field joke (js ''joke'')) JNull),
                   (js ''setup'', orElse (field joke (js ''setup'')) JNull),
                   (js ''delivery'', orElse (field joke (js ''delivery'')) JNull),
                   (js ''category'', field joke (js ''category'')),
                   (js ''type'', field joke (js ''type'')),
                   (js ''flags'', field joke (js ''flags''))]))"

text \<open>\<open>v > 0\<close>.\<close>

definition gt0 :: "env \<Rightarrow> jsval \<Rightarrow> bool" where
  "gt0 e v =
     (case v of
        JNum n \<Rightarrow> 0 < n
      | JBool b \<Rightarrow> b
      | JStr s \<Rightarrow> coerceGt0 e v
      | JArr xs \<Rightarrow> coerceGt0 e v
      | _ \<Rightarrow> False)"

text \<open>\<open>cachedJokes && cachedJokes.length > 0\<close>.\<close>

definition cacheHit :: "env \<Rightarrow> jsval \<Rightarrow> bool" where
  "cacheHit e cachedJokes =
     (truthy cachedJokes \<and>
      (case getProp cachedJokes (js ''length'') of Inl err \<Rightarrow> False | Inr n \<Rightarrow> gt0 e n))"

text \<open>
  The \<open>try\<close> block, in three parts. Each gives the exception that leaves the block, if
  any, and the world at that point (the updates made before a \<open>throw\<close> stay).
  \<open>fetchJokes_commit\<close> is its end: the full records go to the state, the reduced ones
  and the timestamp to storage.
\<close>

definition fetchJokes_commit ::
  "env \<Rightarrow> world \<Rightarrow> jsstring \<Rightarrow> jsval list \<Rightarrow> exn option \<times> world" where
  "fetchJokes_commit e w1 selectedCategory processedJokes =
     (let w2 = w1\<lparr>jokes := JArr processedJokes,
                  lastUpdated := Some (localeOfNumber (clock e 0))\<rparr>
      in (case mapE limitAttributes processedJokes of
            Inl x \<Rightarrow> (Some x, w2)
          | Inr limitedJokes \<Rightarrow>
              (let w3 = w2\<lparr>localStorage :=
                          saveJokesToStorage e (storageKey selectedCategory)
                            (JArr limitedJokes) (localStorage w2)\<rparr>
               in (case setItem e (localStorage w3) (timestampKey selectedCategory)
                          (decimal (clock e 1)) of
                     Inl x \<Rightarrow> (Some x, w3)
                   | Inr s \<Rightarrow> (None, w3\<lparr>localStorage := s\<rparr>)))))"

text \<open>From the parsed body \<open>data\<close> to the full records.\<close>

definition fetchJokes_data ::
  "env \<Rightarrow> world \<Rightarrow> jsstring \<Rightarrow> jsval \<Rightarrow> exn option \<times> world" where
  "fetchJokes_data e w1 selectedCategory data =
     (case getProp data (js ''error'') of
        Inl x \<Rightarrow> (Some x, w1)
      | Inr flag \<Rightarrow>
          (if truthy flag then
             (Some (Error (orElse (field data (js ''message''))
                                  (JStr (js ''Unknown API error'')))), w1)
           else
             (case jokesArray data of
                Inl x \<Rightarrow> (Some x, w1)
              | Inr arr \<Rightarrow>
                  (if arr = [] then
                     (Some (Error (JStr (js ''No jokes found in the selected category''))), w1)
                   else
                     (case mapE processJoke arr of
                        Inl x \<Rightarrow> (Some x, w1)
                      | Inr processedJokes \<Rightarrow>
                          fetchJokes_commit e w1 selectedCategory processedJokes)))))"

text \<open>The request and the response.\<close>

definition fetchJokes_try :: "env \<Rightarrow> world \<Rightarrow> jsstring \<Rightarrow> exn option \<times> world" where
  "fetchJokes_try e w selectedCategory =
     (let w1 = w\<lparr>requests := requests w @ [apiUrl selectedCategory]\<rparr> in
      (case fetch e (apiUrl selectedCategory) of
         Rejected x \<Rightarrow> (Some x, w1)
       | Resolved r \<Rightarrow>
           (if \<not> ok r then
              (Some (Error (JStr (js ''API responded with status: '' @ decimal (status r)))), w1)
            else
              (case json r of
                 Inl x \<Rightarrow> (Some x, w1)
               | Inr data \<Rightarrow> fetchJokes_data e w1 selectedCategory data))))"

definition fetchJokes :: "env \<Rightarrow> world \<Rightarrow> jsstring \<Rightarrow> bool \<Rightarrow> world" where
  "fetchJokes e w selectedCategory forceRefresh =
     (let cachedJokes = loadJokesFromStorage e (localStorage w) (storageKey selectedCategory) in
      if \<not> forceRefresh \<and> cacheHit e cachedJokes then
        w\<lparr>jokes := cachedJokes,
          fromCache := True,
          lastUpdated :=
            Some (case getItem (localStorage w) (timestampKey selectedCategory) of
                    None \<Rightarrow> localeOfNumber (clock e 0)
                  | Some t \<Rightarrow>
                      if t \<noteq> [] then localeOfString e t else localeOfNumber (clock e 0)),
          loading := False\<rparr>
      else
        let w0 = w\<lparr>loading := True, error := None, fromCache := False\<rparr>;
            (thrown, w1) = fetchJokes_try e w0 selectedCategory;
            w2 = (case thrown of
                    None \<Rightarrow> w1
                  | Some x \<Rightarrow> w1\<lparr>error := Some x, jokes := JArr []\<rparr>)
        in w2\<lparr>loading := False\<rparr>)"


section \<open>The handlers\<close>

definition handleRefresh :: "env \<Rightarrow> world \<Rightarrow> world" where
  "handleRefresh e w = fetchJokes e w (category w) True"

definition handleClearCache :: "env \<Rightarrow> world \<Rightarrow> world" where
  "handleClearCache e w =
     (let s1 = clearJokesFromStorage (storageKey (category w)) (localStorage w);
          s2 = removeItem s1 (timestampKey (category w))
      in fetchJokes e (w\<lparr>localStorage := s2\<rparr>) (category w) True)"


section \<open>JokeRow\<close>

text \<open>
  What \<open>JokeRow\<close> returns: a tree of elements (tag, \<open>className\<close>, children), fragments,
  literal text and embedded values \<open>{v}\<close>. React shows an embedded string or number as
  text and shows nothing for \<open>null\<close>, \<open>undefined\<close>, \<open>true\<close> and \<open>false\<close>. The \<open>style\<close>
  property, passed through to the outer element unchanged, is left out.
\<close>

datatype node =
    Element string string "node list"
  | Fragment "node list"
  | Text string
  | Expr jsval

text \<open>The class names of the elements of a tree, in document order.\<close>

fun classNames :: "node \<Rightarrow> string list" where
  "classNames (Element tag cls children) = cls # concat (map classNames children)"
| "classNames (Fragment children) = concat (map classNames children)"
| "classNames (Text t) = []"
| "classNames (Expr v) = []"

text \<open>
  The text React puts on the page for a tree. An embedded string is its text, a number
  its digits, an array its elements in order; \<open>null\<close>, \<open>undefined\<close>, \<open>true\<close> and
  \<open>false\<close> give no text and no node; an embedded object is refused (\<open>None\<close>).
\<close>

fun concatO :: "jsstring option list \<Rightarrow> jsstring option" where
  "concatO [] = Some []"
| "concatO (None # xs) = None"
| "concatO (Some s # xs) = (case concatO xs of None \<Rightarrow> None | Some t \<Rightarrow> Some (s @ t))"

definition numText :: "int \<Rightarrow> jsstring" where
  "numText n = (if n < 0 then js ''-'' @ decimal (nat (- n)) else decimal (nat n))"

fun childText :: "jsval \<Rightarrow> jsstring option" where
  "childText JUndefined = Some []"
| "childText JNull = Some []"
| "childText (JBool b) = Some []"
| "childText (JNum n) = Some (numText n)"
| "childText (JStr s) = Some s"
| "childText (JArr xs) = concatO (map childText xs)"
| "childText (JObj kvs) = None"

fun shown :: "node \<Rightarrow> jsstring option" where
  "shown (Element tag cls children) = concatO (map shown children)"
| "shown (Fragment children) = concatO (map shown children)"
| "shown (Text t) = Some (js t)"
| "shown (Expr v) = childText v"

text \<open>\<open>jokes[index]\<close>.\<close>

fun atIndex :: "jsval \<Rightarrow> nat \<Rightarrow> exn + jsval" where
  "atIndex JUndefined i = Inl TypeError"
| "atIndex JNull i = Inl TypeError"
| "atIndex (JArr xs) i = Inr (if i < length xs then xs ! i else JUndefined)"
| "atIndex (JStr s) i = Inr (if i < length s then JStr [s ! i] else JUndefined)"
| "atIndex (JObj kvs) i = Inr (field (JObj kvs) (decimal i))"
| "atIndex v i = Inr JUndefined"

text \<open>
  \<open>Object.entries(flags).filter(([_, value]) => value).map(([key]) => key).join(', ')\<close>
\<close>

definition trueFlags :: "jsval \<Rightarrow> jsstring" where
  "trueFlags flags =
     joinWith (js '', '') (map fst (filter (\<lambda>(key, v). truthy v) (entries flags)))"

definition metaSpan :: "string \<Rightarrow> string \<Rightarrow> jsval \<Rightarrow> node" where
  "metaSpan cls label v = Element ''span'' cls [Text label, Expr v]"

text \<open>The row of a record read from storage.\<close>

definition cachedView :: "jsval \<Rightarrow> node" where
  "cachedView joke =
     Element ''div'' []
       [Element ''p'' ''joke-summary'' [Expr (field joke (js ''summary''))],
        Element ''div'' ''joke-meta''
          [metaSpan ''joke-category'' ''Category: '' (field joke (js ''category'')),
           metaSpan ''joke-id'' ''ID: '' (field joke (js ''id'')),
           metaSpan ''joke-type'' ''Type: '' (field joke (js ''type''))]]"

definition jokeText :: "jsval \<Rightarrow> node" where
  "jokeText joke =
     (if field joke (js ''type'') = JStr (js ''twopart'')
      then Fragment [Element ''p'' ''joke-setup'' [Expr (field joke (js ''setup''))],
                     Element ''p'' ''joke-delivery'' [Expr (field joke (js ''delivery''))]]
      else Element ''p'' ''joke-text'' [Expr (field joke (js ''joke''))])"

text \<open>The row of a full record, in \<open>JokeList.jsx\<close>: the flags element is always there.\<close>

definition fullView :: "jsval \<Rightarrow> node" where
  "fullView joke =
     Element ''div'' []
       [jokeText joke,
        Element ''div'' ''joke-meta''
          [metaSpan ''joke-category'' ''Category: '' (field joke (js ''category'')),
           metaSpan ''joke-id'' ''ID: '' (field joke (js ''id'')),
           Element ''span'' ''joke-flags''
             [Expr (JStr (trueFlags (orElse (field joke (js ''flags'')) (JObj []))))]]]"

text \<open>
  The same row in the second copy of the component:
  \<open>joke.flags && Object.values(joke.flags).some(flag => flag) && (<span ...>)\<close>.
\<close>

definition flagsChild_v2 :: "jsval \<Rightarrow> node" where
  "flagsChild_v2 flags =
     (if \<not> truthy flags then Expr flags
      else if \<not> list_ex truthy (map snd (entries flags)) then Expr (JBool False)
      else Element ''span'' ''joke-flags'' [Text ''Flags: '', Expr (JStr (trueFlags flags))])"

definition fullView_v2 :: "jsval \<Rightarrow> node" where
  "fullView_v2 joke =
     Element ''div'' []
       [jokeText joke,
        Element ''div'' ''joke-meta''
          [metaSpan ''joke-category'' ''Category: '' (field joke (js ''category'')),
           metaSpan ''joke-id'' ''ID: '' (field joke (js ''id'')),
           flagsChild_v2 (field joke (js ''flags''))]]"

text \<open>\<open>None\<close> is the \<open>null\<close> of \<open>if (!joke) return null\<close>: React renders nothing for it.\<close>

definition JokeRow :: "world \<Rightarrow> nat \<Rightarrow> exn + node option" where
  "JokeRow w index =
     (case atIndex (jokes w) index of
        Inl x \<Rightarrow> Inl x
      | Inr joke \<Rightarrow>
          (if \<not> truthy joke then Inr None
           else Inr (Some (Element ''div'' ''joke-item''
                  [Element ''div'' ''joke-content''
                     [if fromCache w then cachedView joke else fullView joke]]))))"

definition JokeRow_v2 :: "world \<Rightarrow> nat \<Rightarrow> exn + node option" where
  "JokeRow_v2 w index =
     (case atIndex (jokes w) index of
        Inl x \<Rightarrow> Inl x
      | Inr joke \<Rightarrow>
          (if \<not> truthy joke then Inr None
           else Inr (Some (Element ''div'' ''joke-item''
                  [Element ''div'' ''joke-content''
                     [if fromCache w then cachedView joke else fullView_v2 joke]]))))"


section \<open>Example data\<close>

text \<open>
  The joke of the scenario
  \<open>{id: 1, type: "single", joke: "why did...", category: "Programming", flags: {nsfw: false}}\<close>,
  its full record and its reduced record.
\<close>

definition example_raw :: jsval where
  "example_raw =
     JObj [(js ''id'', JNum 1),
           (js ''type'', JStr (js ''single'')),
           (js ''joke'', JStr (js ''why did...'')),
           (js ''category'', JStr (js ''Programming'')),
           (js ''flags'', JObj [(js ''nsfw'', JBool False)])]"

definition example_full :: jsval where
  "example_full =
     JObj [(js ''id'', JNum 1),
           (js ''joke'', JStr (js ''why did...'')),
           (js ''setup'', JNull),
           (js ''delivery'', JNull),
           (js ''category'', JStr (js ''Programming'')),
           (js ''type'', JStr (js ''single'')),
           (js ''flags'', JObj [(js ''nsfw'', JBool False)])]"

definition example_shrunk :: jsval where
  "example_shrunk =
     JObj [(js ''id'', JNum 1),
           (js ''summary'', JStr (js ''why did......'')),
           (js ''category'', JStr (js ''Programming'')),
           (js ''type'', JStr (js ''single''))]"

text \<open>The full record of a two-part joke whose setup is longer than fifty code units.\<close>

definition example_twopart :: jsval where
  "example_twopart =
     JObj [(js ''id'', JNum 3),
           (js ''joke'', JNull),
           (js ''setup'', JStr (js ''Why do programmers always mix up Halloween and Christmas?'')),
           (js ''delivery'', JStr (js ''Because Oct 31 = Dec 25.'')),
           (js ''category'', JStr (js ''Programming'')),
           (js ''type'', JStr (js ''twopart'')),
           (js ''flags'', JObj [(js ''nsfw'', JBool False), (js ''political'', JBool True),
                                (js ''racist'', JBool False), (js ''explicit'', JBool True)])]"

text \<open>The same joke as it arrives, and its reduced record.\<close>

definition example_raw_twopart :: jsval where
  "example_raw_twopart =
     JObj [(js ''error'', JBool False),
           (js ''category'', JStr (js ''Programming'')),
           (js ''type'', JStr (js ''twopart'')),
           (js ''setup'', JStr (js ''Why do programmers always mix up Halloween and Christmas?'')),
           (js ''delivery'', JStr (js ''Because Oct 31 = Dec 25.'')),
           (js ''flags'', JObj [(js ''nsfw'', JBool False), (js ''political'', JBool True),
                                (js ''racist'', JBool False), (js ''explicit'', JBool True)]),
           (js ''id'', JNum 3)]"

definition example_twopart_shrunk :: jsval where
  "example_twopart_shrunk =
     JObj [(js ''id'', JNum 3),
           (js ''summary'', JStr (js ''Why do programmers always mix up Halloween and Chr...'')),
           (js ''category'', JStr (js ''Programming'')),
           (js ''type'', JStr (js ''twopart''))]"

text \<open>A two-part joke that arrives without its setup, and its full record.\<close>

definition example_raw_no_setup :: jsval where
  "example_raw_no_setup =
     JObj [(js ''id'', JNum 2),
           (js ''type'', JStr (js ''twopart'')),
           (js ''delivery'', JStr (js ''To get to the other side.'')),
           (js ''category'', JStr (js ''Pun''))]"

definition example_full_no_setup :: jsval where
  "example_full_no_setup =
     JObj [(js ''id'', JNum 2),
           (js ''joke'', JNull),
           (js ''setup'', JNull),
           (js ''delivery'', JStr (js ''To get to the other side.'')),
           (js ''category'', JStr (js ''Pun'')),
           (js ''type'', JStr (js ''twopart'')),
           (js ''flags'', JUndefined)]"

text \<open>A reduced record stored by an earlier visit.\<close>

definition example_old :: jsval where
  "example_old =
     JObj [(js ''id'', JNum 7),
           (js ''summary'', JStr (js ''Knock knock......'')),
           (js ''category'', JStr (js ''Programming'')),
           (js ''type'', JStr (js ''twopart''))]"

text \<open>
  A platform whose \<open>fetch\<close> answers with the given response, whose storage accepts every
  write, and whose JSON functions know three texts: \<open>[old]\<close> for the array of the record
  of the earlier visit, \<open>[new]\<close> for the array of the reduced example record, and
  \<open>[new, twopart]\<close> for the array of the two reduced example records.
\<close>

definition example_env :: "response \<Rightarrow> env" where
  "example_env r =
     \<lparr>fetch = (\<lambda>url. Resolved r),
      parse = (\<lambda>s. if s = js ''[old]'' then Some (JArr [example_old])
                   else if s = js ''[new]'' then Some (JArr [example_shrunk])
                   else if s = js ''[new, twopart]''
                     then Some (JArr [example_shrunk, example_twopart_shrunk])
                   else None),
      stringify = (\<lambda>v. if v = JArr [example_old] then js ''[old]''
                       else if v = JArr [example_shrunk] then js ''[new]''
                       else if v = JArr [example_shrunk, example_twopart_shrunk]
                         then js ''[new, twopart]''
                       else js ''?''),
      fits = (\<lambda>s. True),
      coerceGt0 = (\<lambda>v. False),
      clock = (\<lambda>i. 1700000000000 + i),
      parseDate = (\<lambda>s. None)\<rparr>"


definition response_jokes :: "jsval list \<Rightarrow> response" where
  "response_jokes xs = \<lparr>ok = True, status = 200, json = Inr (JObj [(js ''jokes'', JArr xs)])\<rparr>"

definition response_500 :: response where
  "response_500 = \<lparr>ok = False, status = 500, json = Inl SyntaxError\<rparr>"

text \<open>The component as mounted, with an empty store and with a populated one.\<close>

definition world_empty :: world where
  "world_empty =
     \<lparr>jokes = JArr [], loading = False, error = None, category = js ''Programming'',
      fromCache = False, lastUpdated = None, localStorage = Map.empty, requests = []\<rparr>"

definition world_cached :: world where
  "world_cached =
     world_empty\<lparr>localStorage :=
       [storageKey (js ''Programming'') \<mapsto> js ''[old]'',
        timestampKey (js ''Programming'') \<mapsto> js ''1690000000000'']\<rparr>"


section \<open>Basic facts\<close>

text \<open>
  \<open>js\<close> is injective and commutes with the list operations, so that comparing two
  literals of the source is comparing their texts.
\<close>

lemma of_char_word16_eq_iff: "((of_char c :: 16 word) = of_char d) = (c = d)"
proof
  assume h: "(of_char c :: 16 word) = of_char d"
  have small: "take_bit 16 (of_char x :: nat) = of_char x" for x
  proof -
    have "(of_char x :: nat) < 256"
      by (rule nat_of_char_less_256)
    also have "(256 :: nat) < 2 ^ 16"
      by simp
    finally show ?thesis
      by (rule take_bit_nat_eq_self)
  qed
  have "(of_nat (of_char c) :: 16 word) = of_nat (of_char d)"
    using h by (simp only: of_nat_of_char)
  then have "take_bit 16 (of_char c :: nat) = take_bit 16 (of_char d :: nat)"
    by (simp add: word_of_nat_eq_iff)
  then have "(of_char c :: nat) = of_char d"
    by (simp only: small)
  then show "c = d"
    by simp
next
  assume "c = d"
  then show "(of_char c :: 16 word) = of_char d"
    by simp
qed

lemma js_eq_iff [simp]: "(js a = js b) = (a = b)"
  unfolding js_def
  by (rule inj_map_eq_map) (simp add: inj_def of_char_word16_eq_iff)

lemma js_Nil_iff [simp]: "(js a = []) = (a = [])" "([] = js a) = (a = [])"
  by (auto simp add: js_def)

lemma js_append [simp]: "js a @ js b = js (a @ b)"
  by (simp add: js_def)

lemma js_append_assoc [simp]: "js a @ js b @ xs = js (a @ b) @ xs"
  by (simp add: js_def)

lemma js_take [simp]: "take n (js a) = js (take n a)"
  by (simp add: js_def take_map)

lemma decimal_500: "decimal 500 = js ''500''"
  by (simp add: decimal.simps js_def)

lemma decimal_clock_1: "decimal 1700000000001 = js ''1700000000001''"
  by (simp add: decimal.simps js_def)

lemma jokesArray_jokes: "jokesArray (JObj [(js ''jokes'', JArr xs)]) = Inr xs"
  by (simp add: jokesArray_def)

lemma error_flag_jokes: "field (JObj [(js ''jokes'', JArr xs)]) (js ''error'') = JUndefined"
  by simp

lemma storageKey_neq_timestampKey:
  "storageKey c \<noteq> timestampKey c"
  by (simp add: timestampKey_def)

lemma cacheHit_array: "cacheHit e (JArr xs) = (xs \<noteq> [])"
  by (simp add: cacheHit_def getProp_def gt0_def)

lemma load_world_cached:
  "loadJokesFromStorage (example_env r) (localStorage world_cached) (storageKey (js ''Programming''))
     = JArr [example_old]"
  by (simp add: loadJokesFromStorage_def getItem_def world_cached_def world_empty_def
      example_env_def storageKey_neq_timestampKey)

lemma timestamp_world_cached:
  "localStorage world_cached (timestampKey (js ''Programming'')) = Some (js ''1690000000000'')"
  by (simp add: world_cached_def world_empty_def)


section \<open>The cache-hit path of fetchJokes\<close>

text \<open>
  What a call served from storage does: \<open>jokes\<close> is the stored array, \<open>fromCache\<close> is
  true, \<open>loading\<close> is false, \<open>lastUpdated\<close> is the text of the date made from the stored
  timestamp string (or from the clock, when that string is absent or empty), nothing
  else changes and no request is issued.
\<close>

lemma fetchJokes_cache_hit_effects:
  assumes "\<not> forceRefresh"
    and "loadJokesFromStorage e (localStorage w) (storageKey c) = JArr xs"
    and "xs \<noteq> []"
  shows "fetchJokes e w c forceRefresh =
           w\<lparr>jokes := JArr xs,
             fromCache := True,
             lastUpdated :=
               Some (case localStorage w (timestampKey c) of
                       None \<Rightarrow> localeOfNumber (clock e 0)
                     | Some t \<Rightarrow> if t = [] then localeOfNumber (clock e 0)
                                else localeOfString e t),
             loading := False\<rparr>
         \<and> requests (fetchJokes e w c forceRefresh) = requests w"
  using assms
  by (auto simp add: fetchJokes_def getItem_def cacheHit_array split: option.splits)

text \<open>
  Claim C10. The cache-hit path leaves \<open>error\<close> as it was: a message set by an earlier
  failed fetch stays after a call that is served from storage.
\<close>

theorem fetchJokes_cache_hit_keeps_error:
  assumes "cacheHit e (loadJokesFromStorage e (localStorage w) (storageKey c))"
  shows "error (fetchJokes e w c False) = error w"
  using assms by (simp add: fetchJokes_def)

theorem fetchJokes_cache_hit_keeps_error_witness:
  "cacheHit (example_env response_500)
     (loadJokesFromStorage (example_env response_500)
        (localStorage (world_cached\<lparr>error := Some TypeError\<rparr>)) (storageKey (js ''Programming'')))
   \<and> error (fetchJokes (example_env response_500) (world_cached\<lparr>error := Some TypeError\<rparr>)
        (js ''Programming'') False) = Some TypeError"
proof -
  have h: "cacheHit (example_env response_500)
     (loadJokesFromStorage (example_env response_500)
        (localStorage (world_cached\<lparr>error := Some TypeError\<rparr>)) (storageKey (js ''Programming'')))"
    by (simp add: load_world_cached cacheHit_array)
  show ?thesis
    using fetchJokes_cache_hit_keeps_error [OF h] h by simp
qed


section \<open>Clearing the cache\<close>

text \<open>
  Claim C7. \<open>handleClearCache\<close> deletes the record key and the timestamp key of the
  current category and then fetches with \<open>forceRefresh\<close>; \<open>clearJokesFromStorage\<close> is
  idempotent, and after it the key is absent.
\<close>

theorem handleClearCache_deletes:
  "handleClearCache e w =
     fetchJokes e
       (w\<lparr>localStorage := (localStorage w)(storageKey (category w) := None,
                                            timestampKey (category w) := None)\<rparr>)
       (category w) True
   \<and> clearJokesFromStorage key (clearJokesFromStorage key s) = clearJokesFromStorage key s
   \<and> clearJokesFromStorage key s key = None"
  by (simp add: handleClearCache_def clearJokesFromStorage_def removeItem_def)

text \<open>
  On the populated store, with a request that fails, the action ends with both keys
  absent.
\<close>

lemma handleClearCache_example:
  "localStorage world_cached (storageKey (js ''Programming'')) = Some (js ''[old]'')
   \<and> localStorage world_cached (timestampKey (js ''Programming'')) = Some (js ''1690000000000'')
   \<and> localStorage (handleClearCache (example_env response_500) world_cached)
         (storageKey (js ''Programming'')) = None
   \<and> localStorage (handleClearCache (example_env response_500) world_cached)
         (timestampKey (js ''Programming'')) = None"
  by (simp add: handleClearCache_def clearJokesFromStorage_def removeItem_def fetchJokes_def
      fetchJokes_try_def example_env_def response_500_def world_cached_def world_empty_def
      storageKey_def timestampKey_def)


section \<open>Rows\<close>

text \<open>
  Claim C9. \<open>JokeRow\<close> reads \<open>jokes[index]\<close>; for an index past the end of the array it
  returns \<open>null\<close> and throws nothing.
\<close>

theorem JokeRow_out_of_range:
  assumes "jokes w = JArr xs" and "length xs \<le> index"
  shows "JokeRow w index = Inr None"
  using assms by (simp add: JokeRow_def)

theorem JokeRow_out_of_range_witness:
  "jokes (world_empty\<lparr>jokes := JArr [example_full]\<rparr>) = JArr [example_full]
   \<and> length [example_full] \<le> (3::nat)
   \<and> JokeRow (world_empty\<lparr>jokes := JArr [example_full]\<rparr>) 3 = Inr None"
proof -
  have h1: "jokes (world_empty\<lparr>jokes := JArr [example_full]\<rparr>) = JArr [example_full]"
    by simp
  have h2: "length [example_full] \<le> (3::nat)"
    by simp
  show ?thesis
    using JokeRow_out_of_range [OF h1 h2] h1 h2 by simp
qed


section \<open>The network path of fetchJokes\<close>





text \<open>The end of the \<open>try\<close> block when nothing throws and the store takes both writes.\<close>

lemma fetchJokes_commit_stored:
  assumes "mapE limitAttributes full = Inr limited"
    and "fits e ((localStorage w1)(storageKey c \<mapsto> stringify e (JArr limited)))"
    and "fits e ((localStorage w1)(storageKey c \<mapsto> stringify e (JArr limited),
                                   timestampKey c \<mapsto> decimal (clock e 1)))"
  shows "fetchJokes_commit e w1 c full =
           (None, w1\<lparr>jokes := JArr full,
                     lastUpdated := Some (localeOfNumber (clock e 0)),
                     localStorage := (localStorage w1)(storageKey c \<mapsto> stringify e (JArr limited),
                                                      timestampKey c \<mapsto> decimal (clock e 1))\<rparr>)"
  using assms by (simp add: fetchJokes_commit_def saveJokesToStorage_def setItem_def)

lemma fetchJokes_data_stored:
  assumes "\<not> nullish data"
    and "\<not> truthy (field data (js ''error''))"
    and "jokesArray data = Inr arr"
    and "arr \<noteq> []"
    and "mapE processJoke arr = Inr full"
  shows "fetchJokes_data e w1 c data = fetchJokes_commit e w1 c full"
  using assms by (simp add: fetchJokes_data_def getProp_def)

lemma processJoke_example: "processJoke example_raw = Inr example_full"
  by (simp add: processJoke_def example_raw_def example_full_def orElse_def)

lemma limitAttributes_example: "limitAttributes example_full = Inr example_shrunk"
  by (simp add: limitAttributes_def example_full_def example_shrunk_def substring0_def)

text \<open>The whole call, under the same conditions.\<close>

lemma fetchJokes_forced_stored:
  assumes "fetch e (apiUrl c) = Resolved r" and "ok r" and "json r = Inr data"
    and "\<not> nullish data" and "\<not> truthy (field data (js ''error''))"
    and "jokesArray data = Inr arr" and "arr \<noteq> []"
    and "mapE processJoke arr = Inr full"
    and "mapE limitAttributes full = Inr limited"
    and "fits e ((localStorage w)(storageKey c \<mapsto> stringify e (JArr limited)))"
    and "fits e ((localStorage w)(storageKey c \<mapsto> stringify e (JArr limited),
                                  timestampKey c \<mapsto> decimal (clock e 1)))"
  shows "fetchJokes e w c True =
            w\<lparr>jokes := JArr full,
              loading := False,
              error := None,
              fromCache := False,
              lastUpdated := Some (localeOfNumber (clock e 0)),
              localStorage := (localStorage w)(storageKey c \<mapsto> stringify e (JArr limited),
                                               timestampKey c \<mapsto> decimal (clock e 1)),
              requests := requests w @ [apiUrl c]\<rparr>"
proof -
  define w1 where "w1 = w\<lparr>loading := True, error := None, fromCache := False,
                          requests := requests w @ [apiUrl c]\<rparr>"
  have s: "localStorage w1 = localStorage w"
    by (simp add: w1_def)
  have "fetchJokes_try e (w\<lparr>loading := True, error := None, fromCache := False\<rparr>) c =
          fetchJokes_data e w1 c data"
    using assms(1-3) by (simp add: fetchJokes_try_def w1_def)
  also have "\<dots> = fetchJokes_commit e w1 c full"
    using assms(4-8) by (simp add: fetchJokes_data_stored)
  also have "\<dots> = (None, w1\<lparr>jokes := JArr full,
                     lastUpdated := Some (localeOfNumber (clock e 0)),
                     localStorage := (localStorage w1)(storageKey c \<mapsto> stringify e (JArr limited),
                                                      timestampKey c \<mapsto> decimal (clock e 1))\<rparr>)"
    using assms(9-11) by (intro fetchJokes_commit_stored) (simp_all add: s)
  finally show ?thesis
    by (simp add: fetchJokes_def w1_def)
qed



lemma processJoke_example_twopart: "processJoke example_raw_twopart = Inr example_twopart"
  by (simp add: processJoke_def example_raw_twopart_def example_twopart_def orElse_def)

lemma limitAttributes_example_twopart:
  "limitAttributes example_twopart = Inr example_twopart_shrunk"
  by (simp add: limitAttributes_def example_twopart_def example_twopart_shrunk_def substring0_def)




section \<open>The timestamp read back\<close>

text \<open>The decimal text of a number: digits only, no leading zero, one more digit per power of ten.\<close>

lemma isDigit_digit: "d < 10 \<Longrightarrow> isDigit (48 + of_nat d)"
proof -
  assume "d < 10"
  then have "d = 0 \<or> d = 1 \<or> d = 2 \<or> d = 3 \<or> d = 4 \<or> d = 5 \<or> d = 6 \<or> d = 7 \<or> d = 8 \<or> d = 9"
    by arith
  then show ?thesis
    by (auto simp add: isDigit_def)
qed

lemma digit_not_zero: "0 < d \<Longrightarrow> d < 10 \<Longrightarrow> (of_nat d :: 16 word) \<noteq> 0"
proof -
  assume "0 < d" "d < 10"
  then have "d = 1 \<or> d = 2 \<or> d = 3 \<or> d = 4 \<or> d = 5 \<or> d = 6 \<or> d = 7 \<or> d = 8 \<or> d = 9"
    by arith
  then show ?thesis
    by auto
qed

lemma decimal_digits: "list_all isDigit (decimal n)"
proof (induction n rule: decimal.induct)
  case (1 n)
  show ?case
  proof (cases "n < 10")
    case True
    then show ?thesis
      by (subst decimal.simps) (simp add: isDigit_digit)
  next
    case False
    then show ?thesis
      using "1.IH" by (subst decimal.simps) (simp add: isDigit_digit)
  qed
qed

lemma decimal_not_Nil: "decimal n \<noteq> []"
  by (subst decimal.simps) simp

lemma length_decimal: "10 ^ k \<le> n \<Longrightarrow> k < length (decimal n)"
proof (induction k arbitrary: n)
  case 0
  then show ?case
    using decimal_not_Nil [of n] by simp
next
  case (Suc k)
  then have "10 * 10 ^ k \<le> n"
    by simp
  moreover have "(1::nat) \<le> 10 ^ k"
    by simp
  ultimately have big: "\<not> n < 10"
    by linarith
  from Suc.prems have "10 ^ k \<le> n div 10"
    by (simp add: less_eq_div_iff_mult_less_eq)
  then have "k < length (decimal (n div 10))"
    by (rule Suc.IH)
  with big show ?case
    by (subst decimal.simps) simp
qed

lemma hd_decimal: "0 < n \<Longrightarrow> hd (decimal n) \<noteq> 48"
proof (induction n rule: decimal.induct)
  case (1 n)
  show ?case
  proof (cases "n < 10")
    case True
    with "1.prems" show ?thesis
      by (subst decimal.simps) (simp add: digit_not_zero)
  next
    case False
    then have "0 < n div 10"
      by (simp add: div_greater_zero_iff)
    with False "1.IH" have "hd (decimal (n div 10)) \<noteq> 48"
      by simp
    with False show ?thesis
      by (subst decimal.simps) (simp add: decimal_not_Nil)
  qed
qed

text \<open>
  Whatever the engine does with other strings, the text \<open>Date.now().toString()\<close> of a
  time from 1000 seconds after the epoch on makes an invalid date.
\<close>

lemma localeOfString_decimal:
  assumes "1000000 \<le> n"
  shows "localeOfString e (decimal n) = InvalidDate"
proof -
  have "(10::nat) ^ 6 \<le> n"
    using assms by simp
  then have "6 < length (decimal n)"
    by (rule length_decimal)
  moreover have "hd (decimal n) \<noteq> 48"
    using assms by (intro hd_decimal) simp
  ultimately show ?thesis
    by (simp add: localeOfString_def dateParse_def decimal_digits)
qed

text \<open>
  So a call served from storage, when the timestamp there is one that \<open>fetchJokes\<close> wrote,
  sets \<open>lastUpdated\<close> to \<open>Invalid Date\<close>.
\<close>

lemma fetchJokes_cache_hit_written_timestamp:
  assumes "loadJokesFromStorage e (localStorage w) (storageKey c) = JArr xs"
    and "xs \<noteq> []"
    and "localStorage w (timestampKey c) = Some (decimal n)"
    and "1000000 \<le> n"
  shows "lastUpdated (fetchJokes e w c False) = Some InvalidDate"
proof -
  have "fetchJokes e w c False =
           w\<lparr>jokes := JArr xs,
             fromCache := True,
             lastUpdated :=
               Some (case localStorage w (timestampKey c) of
                       None \<Rightarrow> localeOfNumber (clock e 0)
                     | Some t \<Rightarrow> if t = [] then localeOfNumber (clock e 0)
                                else localeOfString e t),
             loading := False\<rparr>"
    using fetchJokes_cache_hit_effects [of False e w c xs] assms(1,2) by simp
  then show ?thesis
    using assms(3,4) by (simp add: decimal_not_Nil localeOfString_decimal)
qed

text \<open>
  Claim C1, at a store written by the component itself. The first call fetches the
  joke of the scenario into an empty store and writes the timestamp \<open>1700000000001\<close>;
  the second call, not forced, is served from storage: \<open>jokes\<close> is the stored array,
  \<open>fromCache\<close> is true, \<open>loading\<close> is false, no second request is issued, and
  \<open>lastUpdated\<close> is \<open>Invalid Date\<close>, not the time that was stored.
\<close>

theorem fetchJokes_cache_hit_invalid_date:
  "localStorage (fetchJokes (example_env (response_jokes [example_raw])) world_empty
      (js ''Programming'') True) (timestampKey (js ''Programming'')) = Some (js ''1700000000001'')
   \<and> jokes (fetchJokes (example_env (response_jokes [example_raw]))
        (fetchJokes (example_env (response_jokes [example_raw])) world_empty
           (js ''Programming'') True)
        (js ''Programming'') False) = JArr [example_shrunk]
   \<and> fromCache (fetchJokes (example_env (response_jokes [example_raw]))
        (fetchJokes (example_env (response_jokes [example_raw])) world_empty
           (js ''Programming'') True)
        (js ''Programming'') False) = True
   \<and> loading (fetchJokes (example_env (response_jokes [example_raw]))
        (fetchJokes (example_env (response_jokes [example_raw])) world_empty
           (js ''Programming'') True)
        (js ''Programming'') False) = False
   \<and> requests (fetchJokes (example_env (response_jokes [example_raw]))
        (fetchJokes (example_env (response_jokes [example_raw])) world_empty
           (js ''Programming'') True)
        (js ''Programming'') False) = [apiUrl (js ''Programming'')]
   \<and> lastUpdated (fetchJokes (example_env (response_jokes [example_raw]))
        (fetchJokes (example_env (response_jokes [example_raw])) world_empty
           (js ''Programming'') True)
        (js ''Programming'') False) = Some InvalidDate"
proof -
  let ?e = "example_env (response_jokes [example_raw])"
  let ?c = "js ''Programming''"
  define w1 where "w1 = fetchJokes ?e world_empty ?c True"
  have w1: "w1 = world_empty
            \<lparr>jokes := JArr [example_full],
              loading := False,
              error := None,
              fromCache := False,
              lastUpdated := Some (localeOfNumber (clock ?e 0)),
              localStorage := (localStorage world_empty)
                 (storageKey ?c \<mapsto> stringify ?e (JArr [example_shrunk]),
                  timestampKey ?c \<mapsto> decimal (clock ?e 1)),
              requests := requests world_empty @ [apiUrl ?c]\<rparr>"
    unfolding w1_def
    by (rule fetchJokes_forced_stored [where r = "response_jokes [example_raw]"
          and data = "JObj [(js ''jokes'', JArr [example_raw])]" and arr = "[example_raw]"])
       (simp_all add: example_env_def response_jokes_def jokesArray_jokes processJoke_example
          limitAttributes_example)
  have ts: "localStorage w1 (timestampKey ?c) = Some (decimal 1700000000001)"
    by (simp add: w1 example_env_def)
  have ld: "loadJokesFromStorage ?e (localStorage w1) (storageKey ?c) = JArr [example_shrunk]"
    by (simp add: w1 loadJokesFromStorage_def getItem_def example_env_def
        storageKey_neq_timestampKey)
  have rq: "requests w1 = [apiUrl ?c]"
    by (simp add: w1 world_empty_def)
  have hit: "fetchJokes ?e w1 ?c False =
           w1\<lparr>jokes := JArr [example_shrunk],
             fromCache := True,
             lastUpdated :=
               Some (case localStorage w1 (timestampKey ?c) of
                       None \<Rightarrow> localeOfNumber (clock ?e 0)
                     | Some t \<Rightarrow> if t = [] then localeOfNumber (clock ?e 0)
                                else localeOfString ?e t),
             loading := False\<rparr>"
    using fetchJokes_cache_hit_effects [of False ?e w1 ?c "[example_shrunk]"] ld by simp
  have inv: "lastUpdated (fetchJokes ?e w1 ?c False) = Some InvalidDate"
    by (rule fetchJokes_cache_hit_written_timestamp [OF ld _ ts]) simp_all
  show ?thesis
    unfolding w1_def [symmetric]
    using ts inv rq by (simp add: hit decimal_clock_1)
qed

text \<open>
  Claim C3. When the request is made and the response is not ok, \<open>fetchJokes\<close> ends with
  \<open>error\<close> set to the message \<open>API responded with status: \<close> followed by the decimal
  status code, \<open>jokes\<close> empty and \<open>loading\<close> false.
\<close>

theorem fetchJokes_http_error:
  assumes "forceRefresh \<or> \<not> cacheHit e (loadJokesFromStorage e (localStorage w) (storageKey c))"
    and "fetch e (apiUrl c) = Resolved r"
    and "\<not> ok r"
  shows "error (fetchJokes e w c forceRefresh) =
           Some (Error (JStr (js ''API responded with status: '' @ decimal (status r))))
         \<and> sublist (decimal (status r)) (js ''API responded with status: '' @ decimal (status r))
         \<and> jokes (fetchJokes e w c forceRefresh) = JArr []
         \<and> loading (fetchJokes e w c forceRefresh) = False"
  using assms by (auto simp add: fetchJokes_def fetchJokes_try_def Let_def)

theorem fetchJokes_http_error_witness:
  "fetch (example_env response_500) (apiUrl (js ''Programming'')) = Resolved response_500
   \<and> \<not> ok response_500
   \<and> error (fetchJokes (example_env response_500) world_cached (js ''Programming'') True) =
       Some (Error (JStr (js ''API responded with status: 500'')))
   \<and> sublist (js ''500'') (js ''API responded with status: 500'')
   \<and> jokes (fetchJokes (example_env response_500) world_cached (js ''Programming'') True) = JArr []
   \<and> loading (fetchJokes (example_env response_500) world_cached (js ''Programming'') True) = False"
proof -
  have h1: "fetch (example_env response_500) (apiUrl (js ''Programming'')) = Resolved response_500"
    by (simp add: example_env_def)
  have h2: "\<not> ok response_500"
    by (simp add: response_500_def)
  have d: "decimal (status response_500) = js ''500''"
    by (simp add: response_500_def decimal_500)
  show ?thesis
    using fetchJokes_http_error [of True "example_env response_500" world_cached
        "js ''Programming''" response_500, OF _ h1 h2] h1 h2
    by (simp add: d)
qed

text \<open>
  Claim C4. When the request is made, the response is ok, its body carries no error flag
  and normalises to the empty array (as \<open>{jokes: []}\<close> does), \<open>fetchJokes\<close> ends with
  \<open>error\<close> set to the message \<open>No jokes found in the selected category\<close>, \<open>jokes\<close> empty and
  \<open>loading\<close> false.
\<close>

theorem fetchJokes_empty_result:
  assumes "forceRefresh \<or> \<not> cacheHit e (loadJokesFromStorage e (localStorage w) (storageKey c))"
    and "fetch e (apiUrl c) = Resolved r"
    and "ok r"
    and "json r = Inr data"
    and "\<not> nullish data"
    and "\<not> truthy (field data (js ''error''))"
    and "jokesArray data = Inr []"
  shows "error (fetchJokes e w c forceRefresh) =
           Some (Error (JStr (js ''No jokes found in the selected category'')))
         \<and> jokes (fetchJokes e w c forceRefresh) = JArr []
         \<and> loading (fetchJokes e w c forceRefresh) = False"
  using assms
  by (auto simp add: fetchJokes_def fetchJokes_try_def fetchJokes_data_def getProp_def Let_def)

theorem fetchJokes_empty_result_witness:
  "fetch (example_env (response_jokes [])) (apiUrl (js ''Programming'')) = Resolved (response_jokes [])
   \<and> ok (response_jokes [])
   \<and> json (response_jokes []) = Inr (JObj [(js ''jokes'', JArr [])])
   \<and> jokesArray (JObj [(js ''jokes'', JArr [])]) = Inr []
   \<and> error (fetchJokes (example_env (response_jokes [])) world_empty (js ''Programming'') False) =
       Some (Error (JStr (js ''No jokes found in the selected category'')))
   \<and> jokes (fetchJokes (example_env (response_jokes [])) world_empty (js ''Programming'') False) = JArr []
   \<and> loading (fetchJokes (example_env (response_jokes [])) world_empty (js ''Programming'') False) = False"
proof -
  have h0: "False \<or> \<not> cacheHit (example_env (response_jokes []))
              (loadJokesFromStorage (example_env (response_jokes [])) (localStorage world_empty)
                 (storageKey (js ''Programming'')))"
    by (simp add: loadJokesFromStorage_def getItem_def world_empty_def cacheHit_def)
  have h1: "fetch (example_env (response_jokes [])) (apiUrl (js ''Programming'')) = Resolved (response_jokes [])"
    by (simp add: example_env_def)
  have h2: "ok (response_jokes [])"
    by (simp add: response_jokes_def)
  have h3: "json (response_jokes []) = Inr (JObj [(js ''jokes'', JArr [])])"
    by (simp add: response_jokes_def)
  have h4: "\<not> nullish (JObj [(js ''jokes'', JArr [])])"
    by simp
  have h5: "\<not> truthy (field (JObj [(js ''jokes'', JArr [])]) (js ''error''))"
    by (simp add: error_flag_jokes)
  have h6: "jokesArray (JObj [(js ''jokes'', JArr [])]) = Inr []"
    by (rule jokesArray_jokes)
  show ?thesis
    using fetchJokes_empty_result [OF h0 h1 h2 h3 h4 h5 h6] h1 h2 h3 h6 by simp
qed

text \<open>
  Claim C5, as the code has it. For a body other than \<open>null\<close>, normalisation gives the
  body's \<open>jokes\<close> when that is an array; otherwise the one-element array of the body
  when its \<open>joke\<close> or its \<open>setup\<close> is truthy; otherwise the empty array. A \<open>joke\<close> or
  \<open>setup\<close> that is the empty string is falsy and does not make the body a joke.
\<close>

theorem jokesArray_normalises:
  assumes "\<not> nullish data"
  shows "(field data (js ''jokes'') = JArr xs \<longrightarrow> jokesArray data = Inr xs)
       \<and> (\<not> isArray (field data (js ''jokes''))
            \<and> (truthy (field data (js ''joke'')) \<or> truthy (field data (js ''setup'')))
          \<longrightarrow> jokesArray data = Inr [data])
       \<and> (\<not> isArray (field data (js ''jokes''))
            \<and> \<not> truthy (field data (js ''joke'')) \<and> \<not> truthy (field data (js ''setup''))
          \<longrightarrow> jokesArray data = Inr [])"
  using assms by (auto simp add: jokesArray_def isArray_def split: jsval.splits)

theorem jokesArray_normalises_witness:
  "jokesArray (JObj [(js ''jokes'', JArr [example_raw])]) = Inr [example_raw]
   \<and> jokesArray example_raw = Inr [example_raw]
   \<and> jokesArray (JObj [(js ''id'', JNum 1)]) = Inr []"
proof -
  have n: "\<not> nullish (JObj kvs)" for kvs
    by simp
  have 1: "jokesArray (JObj [(js ''jokes'', JArr [example_raw])]) = Inr [example_raw]"
    using jokesArray_normalises [OF n, of "[(js ''jokes'', JArr [example_raw])]" "[example_raw]"]
    by simp
  have 2: "jokesArray example_raw = Inr [example_raw]"
    using jokesArray_normalises [OF n, of "[(js ''id'', JNum 1),
           (js ''type'', JStr (js ''single'')),
           (js ''joke'', JStr (js ''why did...'')),
           (js ''category'', JStr (js ''Programming'')),
           (js ''flags'', JObj [(js ''nsfw'', JBool False)])]"]
    by (simp add: example_raw_def isArray_def)
  have 3: "jokesArray (JObj [(js ''id'', JNum 1)]) = Inr []"
    using jokesArray_normalises [OF n, of "[(js ''id'', JNum 1)]"]
    by (simp add: isArray_def)
  show ?thesis
    using 1 2 3 by simp
qed

text \<open>The body \<open>{joke: ""}\<close> has a \<open>joke\<close> field and normalises to the empty array.\<close>

theorem jokesArray_empty_string_counterexample:
  "field (JObj [(js ''joke'', JStr [])]) (js ''joke'') = JStr []
   \<and> jokesArray (JObj [(js ''joke'', JStr [])]) = Inr []
   \<and> jokesArray (JObj [(js ''joke'', JStr [])]) \<noteq> Inr [JObj [(js ''joke'', JStr [])]]"
  by (simp add: jokesArray_def)


section \<open>The reduced record\<close>

text \<open>
  Claim C6, as the code has it. For a full record whose text chosen by \<open>type\<close> (\<open>setup\<close>
  for \<open>twopart\<close>, \<open>joke\<close> otherwise) is populated, that is, a non-empty string, both
  copies of \<open>limitAttributes\<close> give the record of \<open>id\<close>, \<open>summary\<close>, \<open>category\<close> and
  \<open>type\<close>, with the same \<open>id\<close>, \<open>category\<close> and \<open>type\<close> and with the first fifty code
  units of that text followed by \<open>...\<close> as \<open>summary\<close>. The record has no \<open>setup\<close>,
  \<open>delivery\<close> or \<open>joke\<close> field; the summary holds the whole text exactly when the text
  has at most fifty code units.
\<close>

theorem limitAttributes_summary:
  assumes "\<not> nullish joke"
    and "(if field joke (js ''type'') = JStr (js ''twopart'')
          then field joke (js ''setup'') else field joke (js ''joke'')) = JStr t"
    and "t \<noteq> []"
  shows "limitAttributes joke =
           Inr (JObj [(js ''id'', field joke (js ''id'')),
                      (js ''summary'', JStr (take 50 t @ js ''...'')),
                      (js ''category'', field joke (js ''category'')),
                      (js ''type'', field joke (js ''type''))])
         \<and> limitAttributes_v2 joke = limitAttributes joke
         \<and> length (take 50 t) \<le> 50
         \<and> (take 50 t = t) = (length t \<le> 50)"
  using assms
  by (auto simp add: limitAttributes_def limitAttributes_v2_def substring0_def Let_def
      split: if_splits)

theorem limitAttributes_summary_witness:
  "field example_twopart (js ''type'') = JStr (js ''twopart'')
   \<and> field example_twopart (js ''setup'') =
       JStr (js ''Why do programmers always mix up Halloween and Christmas?'')
   \<and> limitAttributes example_twopart =
       Inr (JObj [(js ''id'', JNum 3),
                  (js ''summary'', JStr (js ''Why do programmers always mix up Halloween and Chr...'')),
                  (js ''category'', JStr (js ''Programming'')),
                  (js ''type'', JStr (js ''twopart''))])
   \<and> limitAttributes_v2 example_twopart = limitAttributes example_twopart"
proof -
  have h1: "\<not> nullish example_twopart"
    by (simp add: example_twopart_def)
  have h2: "(if field example_twopart (js ''type'') = JStr (js ''twopart'')
             then field example_twopart (js ''setup'') else field example_twopart (js ''joke''))
            = JStr (js ''Why do programmers always mix up Halloween and Christmas?'')"
    by (simp add: example_twopart_def)
  have h3: "js ''Why do programmers always mix up Halloween and Christmas?'' \<noteq> []"
    by simp
  have f: "field example_twopart (js ''type'') = JStr (js ''twopart'')"
      "field example_twopart (js ''setup'') =
         JStr (js ''Why do programmers always mix up Halloween and Christmas?'')"
      "field example_twopart (js ''id'') = JNum 3"
      "field example_twopart (js ''category'') = JStr (js ''Programming'')"
    by (simp_all add: example_twopart_def)
  show ?thesis
    using limitAttributes_summary [OF h1 h2 h3] by (simp add: f)
qed

text \<open>
  The full record of the scenario has a text of ten code units. Its reduced record, in
  both copies, has the summary made of that whole text and the ellipsis: the text is in
  the projection.
\<close>

theorem limitAttributes_short_text_counterexample:
  "field example_full (js ''type'') = JStr (js ''single'')
   \<and> field example_full (js ''joke'') = JStr (js ''why did...'')
   \<and> limitAttributes example_full = Inr example_shrunk
   \<and> limitAttributes_v2 example_full = Inr example_shrunk
   \<and> field example_shrunk (js ''summary'') = JStr (js ''why did...'' @ js ''...'')
   \<and> prefix (js ''why did...'') (js ''why did...'' @ js ''...'')"
proof -
  have p: "prefix (js ''why did...'') (js ''why did...'' @ js ''...'')"
    by (rule prefixI) (rule refl)
  show ?thesis
    using p
    by (simp add: limitAttributes_def limitAttributes_v2_def substring0_def example_full_def
        example_shrunk_def)
qed

text \<open>
  Outside the claim as amended: a two-part joke that arrives without \<open>setup\<close> gets the
  full record with \<open>setup: null\<close>. On it \<open>limitAttributes\<close> of \<open>JokeList.jsx\<close> throws, and
  the second copy gives the empty summary, with no ellipsis.
\<close>

lemma limitAttributes_missing_text:
  "processJoke example_raw_no_setup = Inr example_full_no_setup
   \<and> limitAttributes example_full_no_setup = Inl TypeError
   \<and> limitAttributes_v2 example_full_no_setup =
       Inr (JObj [(js ''id'', JNum 2),
                  (js ''summary'', JStr []),
                  (js ''category'', JStr (js ''Pun'')),
                  (js ''type'', JStr (js ''twopart''))])"
  by (simp add: processJoke_def limitAttributes_def limitAttributes_v2_def substring0_def
      orElse_def example_raw_no_setup_def example_full_no_setup_def)

text \<open>
  The reduction loses information: the record below differs from \<open>example_twopart\<close> in
  its setup (cut after fifty code units), its delivery and its flags, and has the same
  reduced record.
\<close>

lemma limitAttributes_lossy:
  "example_twopart \<noteq> JObj [(js ''id'', JNum 3),
           (js ''joke'', JNull),
           (js ''setup'', JStr (js ''Why do programmers always mix up Halloween and Chr'')),
           (js ''delivery'', JNull),
           (js ''category'', JStr (js ''Programming'')),
           (js ''type'', JStr (js ''twopart'')),
           (js ''flags'', JUndefined)]
   \<and> limitAttributes example_twopart = limitAttributes (JObj [(js ''id'', JNum 3),
           (js ''joke'', JNull),
           (js ''setup'', JStr (js ''Why do programmers always mix up Halloween and Chr'')),
           (js ''delivery'', JNull),
           (js ''category'', JStr (js ''Programming'')),
           (js ''type'', JStr (js ''twopart'')),
           (js ''flags'', JUndefined)])"
  by (simp add: limitAttributes_def substring0_def example_twopart_def)


section \<open>The flags of a row\<close>


lemma trueFlags_example:
  "trueFlags (field example_twopart (js ''flags'')) = js ''political, explicit''"
  by (simp add: trueFlags_def example_twopart_def)

lemma trueFlags_none:
  assumes "\<not> list_ex truthy (map snd (entries flags))"
  shows "trueFlags flags = []"
proof -
  have "filter (\<lambda>(key, v). truthy v) (entries flags) = []"
    using assms by (auto simp add: list_ex_iff filter_empty_conv)
  then show ?thesis
    by (simp add: trueFlags_def)
qed



text \<open>
  The two copies of the component differ in the tree: \<open>JokeList.jsx\<close> always has the
  flags element, the second copy has it, with the label \<open>Flags: \<close>, exactly when some
  flag is truthy. For the record of the scenario, whose only flag is false, the first
  gives the element with the empty text, the second leaves it out, and the text shown
  for the row is the same.
\<close>

lemma fullView_has_flags: "''joke-flags'' \<in> set (classNames (fullView joke))"
  by (simp add: fullView_def)

lemma fullView_v2_has_flags:
  "''joke-flags'' \<in> set (classNames (fullView_v2 joke)) \<longleftrightarrow>
     truthy (field joke (js ''flags''))
     \<and> list_ex truthy (map snd (entries (field joke (js ''flags''))))"
  by (simp add: fullView_v2_def flagsChild_v2_def jokeText_def metaSpan_def)

lemma JokeRow_renders_empty_flags:
  "JokeRow (world_empty\<lparr>jokes := JArr [example_full]\<rparr>) 0 =
     Inr (Some
       (Element ''div'' ''joke-item''
         [Element ''div'' ''joke-content''
           [Element ''div'' []
             [Element ''p'' ''joke-text'' [Expr (JStr (js ''why did...''))],
              Element ''div'' ''joke-meta''
               [Element ''span'' ''joke-category''
                  [Text ''Category: '', Expr (JStr (js ''Programming''))],
                Element ''span'' ''joke-id'' [Text ''ID: '', Expr (JNum 1)],
                Element ''span'' ''joke-flags'' [Expr (JStr [])]]]]]))"
  by (simp add: JokeRow_def world_empty_def fullView_def jokeText_def metaSpan_def
      trueFlags_def orElse_def example_full_def)

lemma JokeRow_v2_omits_empty_flags:
  "JokeRow_v2 (world_empty\<lparr>jokes := JArr [example_full]\<rparr>) 0 =
     Inr (Some
       (Element ''div'' ''joke-item''
         [Element ''div'' ''joke-content''
           [Element ''div'' []
             [Element ''p'' ''joke-text'' [Expr (JStr (js ''why did...''))],
              Element ''div'' ''joke-meta''
               [Element ''span'' ''joke-category''
                  [Text ''Category: '', Expr (JStr (js ''Programming''))],
                Element ''span'' ''joke-id'' [Text ''ID: '', Expr (JNum 1)],
                Expr (JBool False)]]]]))"
  by (simp add: JokeRow_v2_def world_empty_def fullView_v2_def flagsChild_v2_def jokeText_def
      metaSpan_def example_full_def)

lemma numText_1: "numText 1 = js ''1''"
  by (simp add: numText_def decimal.simps js_def)

lemma shown_example_rows:
  "shown (fullView example_full) = Some (js ''why did...Category: ProgrammingID: 1'')
   \<and> shown (fullView_v2 example_full) = shown (fullView example_full)"
  by (simp add: fullView_def fullView_v2_def flagsChild_v2_def jokeText_def metaSpan_def
      trueFlags_def orElse_def example_full_def numText_1)

end
